theory Spec2Isabelle
  imports Complex_Main
begin

section \<open>JavaScript values\<close>

text \<open>
  A JavaScript number is an IEEE double. The model keeps the finite values as exact reals
  (rounding and overflow are not modelled, and zero carries no sign: it behaves as +0) and
  keeps the three non-finite values apart, so that a division by zero is visible in the
  result instead of being HOL's \<open>x / 0 = 0\<close>.
\<close>

datatype jsnum = Fin real | PInf | NInf | NaN

fun jneg :: "jsnum \<Rightarrow> jsnum" where
  "jneg (Fin a) = Fin (- a)"
| "jneg PInf = NInf"
| "jneg NInf = PInf"
| "jneg NaN = NaN"

fun jadd :: "jsnum \<Rightarrow> jsnum \<Rightarrow> jsnum" where
  "jadd NaN y = NaN"
| "jadd x NaN = NaN"
| "jadd (Fin a) (Fin b) = Fin (a + b)"
| "jadd (Fin a) y = y"
| "jadd PInf NInf = NaN"
| "jadd NInf PInf = NaN"
| "jadd x y = x"

definition jsub :: "jsnum \<Rightarrow> jsnum \<Rightarrow> jsnum" where
  "jsub x y = jadd x (jneg y)"

fun inf_times :: "jsnum \<Rightarrow> real \<Rightarrow> jsnum" where
  "inf_times x a = (if a = 0 then NaN else if 0 < a then x else jneg x)"

fun jmul :: "jsnum \<Rightarrow> jsnum \<Rightarrow> jsnum" where
  "jmul NaN y = NaN"
| "jmul x NaN = NaN"
| "jmul (Fin a) (Fin b) = Fin (a * b)"
| "jmul (Fin a) y = inf_times y a"
| "jmul x (Fin b) = inf_times x b"
| "jmul PInf y = y"
| "jmul NInf y = jneg y"

fun jdiv :: "jsnum \<Rightarrow> jsnum \<Rightarrow> jsnum" where
  "jdiv NaN y = NaN"
| "jdiv x NaN = NaN"
| "jdiv (Fin a) (Fin b) =
     (if b \<noteq> 0 then Fin (a / b)
      else if a = 0 then NaN else if 0 < a then PInf else NInf)"
| "jdiv (Fin a) y = Fin 0"
| "jdiv x (Fin b) = (if 0 \<le> b then x else jneg x)"
| "jdiv x y = NaN"

fun jsqrt :: "jsnum \<Rightarrow> jsnum" where
  "jsqrt (Fin a) = (if a < 0 then NaN else Fin (sqrt a))"
| "jsqrt PInf = PInf"
| "jsqrt x = NaN"

text \<open>The relational operators: every comparison with \<open>NaN\<close> is false.\<close>

fun jlt :: "jsnum \<Rightarrow> jsnum \<Rightarrow> bool" where
  "jlt NaN y = False"
| "jlt x NaN = False"
| "jlt (Fin a) (Fin b) = (a < b)"
| "jlt x PInf = (x \<noteq> PInf)"
| "jlt NInf y = (y \<noteq> NInf)"
| "jlt x y = False"

definition jgt :: "jsnum \<Rightarrow> jsnum \<Rightarrow> bool" where
  "jgt x y = jlt y x"

definition jge :: "jsnum \<Rightarrow> jsnum \<Rightarrow> bool" where
  "jge x y = (x \<noteq> NaN \<and> y \<noteq> NaN \<and> \<not> jlt x y)"

fun num_truthy :: "jsnum \<Rightarrow> bool" where
  "num_truthy (Fin a) = (a \<noteq> 0)"
| "num_truthy NaN = False"
| "num_truthy x = True"

text \<open>
  The values a field of a JSON request body can hold. \<open>JUndefined\<close> is the value of a
  field that is missing from the body. \<open>JObj\<close> is an array or an object; all the
  handlers do with one is convert it to a primitive, which gives a string (for an array
  its elements joined by commas, for an object \<open>[object Object]\<close>) or throws a
  TypeError (\<open>None\<close>: the body gave the object a \<open>toString\<close> of its own, which is not
  a function).
\<close>

datatype jsval = JUndefined | JNull | JBool bool | JNum real | JStr string | JObj "string option"

fun truthy :: "jsval \<Rightarrow> bool" where
  "truthy JUndefined = False"
| "truthy JNull = False"
| "truthy (JBool b) = b"
| "truthy (JNum a) = (a \<noteq> 0)"
| "truthy (JStr s) = (s \<noteq> [])"
| "truthy (JObj s) = True"

fun is_number :: "jsval \<Rightarrow> bool" where
  "is_number (JNum a) = True"
| "is_number v = False"

fun is_string :: "jsval \<Rightarrow> bool" where
  "is_string (JStr s) = True"
| "is_string v = False"

section \<open>The SMS alert service (sms-service.js)\<close>

text \<open>
  The process environment of the service: whether the Twilio \<open>client\<close> was created and
  the number it sends from; and three operations of JavaScript on strings that the
  handlers reach through its conversions: the number a string stands for, the string a
  number prints as, and the order of two strings (by their code units).
\<close>

record env =
  client :: bool
  twilioPhoneNumber :: string
  StringToNumber :: "string \<Rightarrow> jsnum"
  NumberToString :: "real \<Rightarrow> string"
  StringLess :: "string \<Rightarrow> string \<Rightarrow> bool"

text \<open>The conversions of a value; \<open>None\<close> is a TypeError thrown by the conversion.\<close>

fun ToPrimitive :: "jsval \<Rightarrow> jsval option" where
  "ToPrimitive (JObj None) = None"
| "ToPrimitive (JObj (Some s)) = Some (JStr s)"
| "ToPrimitive v = Some v"

fun ToString :: "env \<Rightarrow> jsval \<Rightarrow> string option" where
  "ToString e JUndefined = Some ''undefined''"
| "ToString e JNull = Some ''null''"
| "ToString e (JBool b) = Some (if b then ''true'' else ''false'')"
| "ToString e (JNum a) = Some (NumberToString e a)"
| "ToString e (JStr s) = Some s"
| "ToString e (JObj s) = s"

text \<open>\<open>ToNumber\<close> of a primitive value (an object is converted to a primitive first).\<close>

fun ToNumber :: "env \<Rightarrow> jsval \<Rightarrow> jsnum" where
  "ToNumber e JUndefined = NaN"
| "ToNumber e JNull = Fin 0"
| "ToNumber e (JBool b) = Fin (if b then 1 else 0)"
| "ToNumber e (JNum a) = Fin a"
| "ToNumber e (JStr s) = StringToNumber e s"
| "ToNumber e (JObj s) = (case s of Some t \<Rightarrow> StringToNumber e t | None \<Rightarrow> NaN)"

text \<open>
  \<open>x >= y\<close>: both operands are converted to primitives; two strings are compared as
  strings, any other pair as numbers.
\<close>

fun primitive_ge :: "env \<Rightarrow> jsval \<Rightarrow> jsval \<Rightarrow> bool" where
  "primitive_ge e (JStr s) (JStr t) = (\<not> StringLess e s t)"
| "primitive_ge e x y = jge (ToNumber e x) (ToNumber e y)"

definition greater_equal :: "env \<Rightarrow> jsval \<Rightarrow> jsval \<Rightarrow> bool option" where
  "greater_equal e x y =
     (case ToPrimitive x of
        None \<Rightarrow> None
      | Some px \<Rightarrow> (case ToPrimitive y of None \<Rightarrow> None | Some py \<Rightarrow> Some (primitive_ge e px py)))"

text \<open>
  An entry of \<open>activeAlerts\<close>. The handler of register-alert stores the phone number
  and the threshold as the request gave them, whatever their types. Times are
  milliseconds since the epoch, handed to each handler as \<open>now\<close>; \<open>triggeredAt\<close> is
  absent until the alert is triggered.
\<close>

record alert =
  phoneNumber :: jsval
  threshold :: jsval
  createdAt :: nat
  triggered :: bool
  triggeredAt :: "nat option"

text \<open>The key \<open>`${phoneNumber}_${threshold}`\<close>; the template string converts both parts.\<close>

type_synonym alertId = string

definition alertId_of :: "env \<Rightarrow> jsval \<Rightarrow> jsval \<Rightarrow> alertId option" where
  "alertId_of e p t =
     (case ToString e p of
        None \<Rightarrow> None
      | Some ps \<Rightarrow> (case ToString e t of None \<Rightarrow> None | Some ts \<Rightarrow> Some (ps @ ''_'' @ ts)))"

text \<open>
  A JavaScript \<open>Map\<close> iterates in insertion order; \<open>set\<close> on a key that is present
  replaces the value in place, on a new key it appends.
\<close>

type_synonym store = "(alertId \<times> alert) list"

fun map_set :: "'k \<Rightarrow> 'v \<Rightarrow> ('k \<times> 'v) list \<Rightarrow> ('k \<times> 'v) list" where
  "map_set k v [] = [(k, v)]"
| "map_set k v ((k', v') # m) = (if k' = k then (k, v) # m else (k', v') # map_set k v m)"

fun map_delete :: "'k \<Rightarrow> ('k \<times> 'v) list \<Rightarrow> ('k \<times> 'v) list" where
  "map_delete k [] = []"
| "map_delete k ((k', v') # m) = (if k' = k then m else (k', v') # map_delete k m)"

text \<open>
  The text message of an alert: the fixed template filled with the current rate and the
  threshold (both printed with six decimals by the source).
\<close>

datatype body = AlertText real real

record sms =
  sms_body :: body
  sms_from :: string
  sms_to :: jsval

record triggeredAlert =
  ta_phoneNumber :: jsval
  ta_threshold :: jsval
  ta_currentRate :: real

record alertStatus =
  as_phoneNumber :: string
  as_threshold :: jsval
  as_triggered :: bool
  as_createdAt :: nat
  as_triggeredAt :: "nat option"

datatype payload =
    Error string
  | Registered string nat
  | Checked nat "triggeredAlert list"
  | ResetDone string nat
  | StatusReport nat "alertStatus list" bool

record response =
  status :: nat
  success :: bool
  json :: payload

definition respond :: "nat \<Rightarrow> bool \<Rightarrow> payload \<Rightarrow> response" where
  "respond c ok p = \<lparr>status = c, success = ok, json = p\<rparr>"

subsection \<open>POST /api/register-alert\<close>

record registerBody =
  rb_phoneNumber :: jsval
  rb_threshold :: jsval
  rb_enabled :: jsval

text \<open>The entry that a registration stores.\<close>

definition fresh :: "nat \<Rightarrow> registerBody \<Rightarrow> alert" where
  "fresh now b =
     \<lparr>phoneNumber = rb_phoneNumber b, threshold = rb_threshold b, createdAt = now,
      triggered = False, triggeredAt = None\<rparr>"

text \<open>
  A TypeError of the template string is caught by the handler's \<open>catch\<close>: status 500, and
  \<open>activeAlerts\<close> as it was.
\<close>

definition register_alert :: "env \<Rightarrow> nat \<Rightarrow> registerBody \<Rightarrow> store \<Rightarrow> response \<times> store" where
  "register_alert e now b activeAlerts =
     (if \<not> truthy (rb_phoneNumber b) \<or> \<not> truthy (rb_threshold b)
      then (respond 400 False (Error ''Phone number and threshold are required''), activeAlerts)
      else
        case alertId_of e (rb_phoneNumber b) (rb_threshold b) of
          None \<Rightarrow> (respond 500 False (Error ''Failed to register alert''), activeAlerts)
        | Some alertId \<Rightarrow>
            let m = (if truthy (rb_enabled b)
                     then map_set alertId
                            (fresh now b) activeAlerts
                     else map_delete alertId activeAlerts)
            in (respond 200 True
                  (Registered (if truthy (rb_enabled b) then ''Alert registered successfully''
                               else ''Alert removed successfully'') (length m)), m))"

subsection \<open>POST /api/check-alerts\<close>

text \<open>
  The result of the loop over \<open>activeAlerts.entries()\<close>: the alerts after the loop, the
  list \<open>triggeredAlerts\<close>, the calls made to \<open>client.messages.create\<close>, and whether a
  TypeError left the loop. A TypeError comes from the comparison (a conversion that
  throws) or from the message (\<open>toFixed\<close> exists on numbers only); it is thrown outside
  the inner \<open>try\<close>, so the loop ends there and the alerts behind are not looked at.
\<close>

record loopResult =
  lr_alerts :: store
  lr_triggeredAlerts :: "triggeredAlert list"
  lr_calls :: "sms list"
  lr_threw :: bool

definition keep :: "alertId \<times> alert \<Rightarrow> loopResult \<Rightarrow> loopResult" where
  "keep x k = k\<lparr>lr_alerts := x # lr_alerts k\<rparr>"

definition thrown :: "store \<Rightarrow> loopResult" where
  "thrown m = \<lparr>lr_alerts = m, lr_triggeredAlerts = [], lr_calls = [], lr_threw = True\<rparr>"

definition alert_message :: "env \<Rightarrow> real \<Rightarrow> real \<Rightarrow> jsval \<Rightarrow> sms" where
  "alert_message e r t p = \<lparr>sms_body = AlertText r t, sms_from = twilioPhoneNumber e, sms_to = p\<rparr>"

text \<open>
  \<open>create m\<close> tells whether the call \<open>client.messages.create\<close> for the message \<open>m\<close>
  resolves; when it rejects, the inner \<open>catch\<close> logs the error and the loop goes on.
  The comparison is not evaluated for an alert that is triggered (\<open>&&\<close>).
\<close>

fun check_loop :: "env \<Rightarrow> (sms \<Rightarrow> bool) \<Rightarrow> nat \<Rightarrow> jsval \<Rightarrow> store \<Rightarrow> loopResult" where
  "check_loop e create now currentRate [] =
     \<lparr>lr_alerts = [], lr_triggeredAlerts = [], lr_calls = [], lr_threw = False\<rparr>"
| "check_loop e create now currentRate ((alertId, a) # rest) =
     (if triggered a then keep (alertId, a) (check_loop e create now currentRate rest)
      else
        case greater_equal e currentRate (threshold a) of
          None \<Rightarrow> thrown ((alertId, a) # rest)
        | Some False \<Rightarrow> keep (alertId, a) (check_loop e create now currentRate rest)
        | Some True \<Rightarrow>
            (case currentRate of
               JNum r \<Rightarrow>
                 (case threshold a of
                    JNum t \<Rightarrow>
                      let message = alert_message e r t (phoneNumber a);
                          calls = (if client e then [message] else []);
                          k = check_loop e create now currentRate rest
                      in if client e \<and> \<not> create message
                         then k\<lparr>lr_alerts := (alertId, a) # lr_alerts k,
                                 lr_calls := calls @ lr_calls k\<rparr>
                         else k\<lparr>lr_alerts :=
                                   (alertId, a\<lparr>triggered := True, triggeredAt := Some now\<rparr>)
                                   # lr_alerts k,
                                 lr_triggeredAlerts :=
                                   \<lparr>ta_phoneNumber = phoneNumber a, ta_threshold = threshold a,
                                    ta_currentRate = r\<rparr> # lr_triggeredAlerts k,
                                 lr_calls := calls @ lr_calls k\<rparr>
                  | _ \<Rightarrow> thrown ((alertId, a) # rest))
             | _ \<Rightarrow> thrown ((alertId, a) # rest)))"

text \<open>The handler returns the response, the alerts it leaves, and the calls to Twilio it made.\<close>

definition check_alerts ::
  "env \<Rightarrow> (sms \<Rightarrow> bool) \<Rightarrow> nat \<Rightarrow> jsval \<Rightarrow> store \<Rightarrow> response \<times> store \<times> sms list" where
  "check_alerts e create now currentRate activeAlerts =
     (if \<not> truthy currentRate
      then (respond 400 False (Error ''Current rate is required''), activeAlerts, [])
      else
        let k = check_loop e create now currentRate activeAlerts
        in if lr_threw k
           then (respond 500 False (Error ''Failed to check alerts''), lr_alerts k, lr_calls k)
           else (respond 200 True
                   (Checked (length (lr_triggeredAlerts k)) (lr_triggeredAlerts k)),
                 lr_alerts k, lr_calls k))"

subsection \<open>POST /api/reset-alerts\<close>

definition reset_alerts :: "store \<Rightarrow> response \<times> store" where
  "reset_alerts activeAlerts =
     (let m = map (\<lambda>(alertId, a). (alertId, a\<lparr>triggered := False, triggeredAt := None\<rparr>))
                activeAlerts
      in (respond 200 True (ResetDone ''All alerts reset successfully'' (length m)), m))"

subsection \<open>GET /api/alerts-status\<close>

definition digit :: "char \<Rightarrow> bool" where
  "digit c = (c \<in> set ''0123456789'')"

text \<open>
  \<open>s.replace(/(\d{3})\d{4}(\d{4})/, '$1****$2')\<close>: the leftmost run of eleven digits
  is replaced by its first three digits, four stars and its last four digits; a string
  with no such run is returned as it is.
\<close>

fun mask :: "string \<Rightarrow> string" where
  "mask [] = []"
| "mask (c # cs) =
     (if 11 \<le> length (c # cs) \<and> list_all digit (take 11 (c # cs))
      then take 3 (c # cs) @ ''****'' @ take 4 (drop 7 (c # cs)) @ drop 11 (c # cs)
      else c # mask cs)"

text \<open>
  Only a string has \<open>replace\<close>: a stored phone number of another type is a TypeError in
  the \<open>map\<close>, which the handler's \<open>catch\<close> answers with status 500.
\<close>

definition string_of :: "jsval \<Rightarrow> string" where
  "string_of v = (case v of JStr s \<Rightarrow> s | _ \<Rightarrow> [])"

definition alerts_status :: "env \<Rightarrow> store \<Rightarrow> response" where
  "alerts_status e activeAlerts =
     (if list_all (\<lambda>a. is_string (phoneNumber a)) (map snd activeAlerts)
      then
        let alerts = map (\<lambda>a. \<lparr>as_phoneNumber = mask (string_of (phoneNumber a)),
                                 as_threshold = threshold a,
                                 as_triggered = triggered a,
                                 as_createdAt = createdAt a,
                                 as_triggeredAt = triggeredAt a\<rparr>) (map snd activeAlerts)
        in respond 200 True (StatusReport (length activeAlerts) alerts (client e))
      else respond 500 False (Error ''Failed to get alerts status''))"

subsection \<open>Requests in sequence\<close>

text \<open>
  The handlers that read or write \<open>activeAlerts\<close>, run one request at a time. (The handler
  of check-alerts is async; requests that interleave at its \<open>await\<close> are outside this
  model.)
\<close>

datatype request =
    RegisterAlert nat registerBody
  | CheckAlerts "sms \<Rightarrow> bool" nat jsval
  | ResetAlerts
  | AlertsStatus

fun handle :: "env \<Rightarrow> request \<Rightarrow> store \<Rightarrow> store" where
  "handle e (RegisterAlert now b) m = snd (register_alert e now b m)"
| "handle e (CheckAlerts create now currentRate) m = fst (snd (check_alerts e create now currentRate m))"
| "handle e ResetAlerts m = snd (reset_alerts m)"
| "handle e AlertsStatus m = m"

text \<open>The states of \<open>activeAlerts\<close> that the service can be in: it starts empty.\<close>

inductive reachable :: "env \<Rightarrow> store \<Rightarrow> bool" for e :: env where
  start: "reachable e []"
| request: "reachable e m \<Longrightarrow> reachable e (handle e r m)"

text \<open>
  A sequence of evaluations: check-alerts called with each observed rate in turn. The
  result collects the alerts the responses report as triggered, the calls made to Twilio,
  and the alerts left at the end.
\<close>

record runResult =
  rr_triggeredAlerts :: "triggeredAlert list"
  rr_calls :: "sms list"
  rr_alerts :: store

definition reported :: "response \<Rightarrow> triggeredAlert list" where
  "reported r = (case json r of Checked n ts \<Rightarrow> ts | _ \<Rightarrow> [])"

fun check_seq :: "env \<Rightarrow> (sms \<Rightarrow> bool) \<Rightarrow> nat \<Rightarrow> real list \<Rightarrow> store \<Rightarrow> runResult" where
  "check_seq e create now [] m =
     \<lparr>rr_triggeredAlerts = [], rr_calls = [], rr_alerts = m\<rparr>"
| "check_seq e create now (r # rs) m =
     (case check_alerts e create now (JNum r) m of
        (res, m', calls) \<Rightarrow>
          let k = check_seq e create now rs m'
          in \<lparr>rr_triggeredAlerts = reported res @ rr_triggeredAlerts k,
              rr_calls = calls @ rr_calls k,
              rr_alerts = rr_alerts k\<rparr>)"

text \<open>The recipient and the threshold of an entry of \<open>activeAlerts\<close>.\<close>

definition rule_of :: "alertId \<times> alert \<Rightarrow> jsval \<times> jsval" where
  "rule_of x = (phoneNumber (snd x), threshold (snd x))"

text \<open>The alerts reported for one rule, named by its recipient and threshold.\<close>

definition fired_for :: "jsval \<times> jsval \<Rightarrow> triggeredAlert list \<Rightarrow> triggeredAlert list" where
  "fired_for k ts = filter (\<lambda>t. (ta_phoneNumber t, ta_threshold t) = k) ts"

text \<open>How many alerts a sequence of evaluations reports for a rule.\<close>

definition fires :: "env \<Rightarrow> (sms \<Rightarrow> bool) \<Rightarrow> nat \<Rightarrow> jsval \<times> jsval \<Rightarrow> real list \<Rightarrow> store \<Rightarrow> nat" where
  "fires e create now k rs m = length (fired_for k (rr_triggeredAlerts (check_seq e create now rs m)))"

text \<open>
  The stores in which every threshold is a number, and on them: the threshold of an
  alert, whether an alert is due at a rate (not triggered, and the rate has reached the
  threshold), its message, whether the message goes out, what the loop reports for it
  and what the loop does to its entry.
\<close>

definition numeric :: "store \<Rightarrow> bool" where
  "numeric m = list_all (\<lambda>x. is_number (threshold (snd x))) m"

definition threshold_of :: "alert \<Rightarrow> real" where
  "threshold_of a = (case threshold a of JNum t \<Rightarrow> t | _ \<Rightarrow> 0)"

definition due :: "real \<Rightarrow> alert \<Rightarrow> bool" where
  "due r a = (\<not> triggered a \<and> threshold_of a \<le> r)"

definition message_for :: "env \<Rightarrow> real \<Rightarrow> alert \<Rightarrow> sms" where
  "message_for e r a = alert_message e r (threshold_of a) (phoneNumber a)"

definition delivered :: "env \<Rightarrow> (sms \<Rightarrow> bool) \<Rightarrow> real \<Rightarrow> alert \<Rightarrow> bool" where
  "delivered e create r a = (due r a \<and> (client e \<longrightarrow> create (message_for e r a)))"

definition event :: "real \<Rightarrow> alert \<Rightarrow> triggeredAlert" where
  "event r a = \<lparr>ta_phoneNumber = phoneNumber a, ta_threshold = threshold a, ta_currentRate = r\<rparr>"

definition fire :: "env \<Rightarrow> (sms \<Rightarrow> bool) \<Rightarrow> real \<Rightarrow> nat \<Rightarrow> alertId \<times> alert \<Rightarrow> alertId \<times> alert" where
  "fire e create r now x =
     (fst x, if delivered e create r (snd x)
             then (snd x)\<lparr>triggered := True, triggeredAt := Some now\<rparr> else snd x)"

text \<open>
  What holds of every entry that register-alert has stored: the two parts are truthy and
  the key is the template string of them; and no key is stored twice.
\<close>

definition entry_ok :: "env \<Rightarrow> alertId \<times> alert \<Rightarrow> bool" where
  "entry_ok e x = (truthy (phoneNumber (snd x)) \<and> truthy (threshold (snd x)) \<and>
                    alertId_of e (phoneNumber (snd x)) (threshold (snd x)) = Some (fst x))"

definition well_keyed :: "env \<Rightarrow> store \<Rightarrow> bool" where
  "well_keyed e m = (distinct (map fst m) \<and> list_all (entry_ok e) m)"

section \<open>The browser application (script.js)\<close>

record observation =
  date :: string
  rate :: real
  timestamp :: int

text \<open>\<open>data.slice(-k)\<close> for a positive \<open>k\<close>: the last \<open>k\<close> elements, or all of them.\<close>

definition slice_last :: "nat \<Rightarrow> 'a list \<Rightarrow> 'a list" where
  "slice_last k xs = drop (length xs - k) xs"

definition calculateTrend :: "observation list \<Rightarrow> jsnum" where
  "calculateTrend data =
     (if length data < 2 then Fin 0
      else
        let firstRate = Fin (rate (data ! 0));
            lastRate = Fin (rate (data ! (length data - 1)));
            change = jmul (jdiv (jsub lastRate firstRate) firstRate) (Fin 100)
        in change)"

definition calculateVolatility :: "observation list \<Rightarrow> jsnum" where
  "calculateVolatility data =
     (if length data < 2 then Fin 0
      else
        let rates = map (\<lambda>d. Fin (rate d)) data;
            mean = jdiv (foldl (\<lambda>sum r. jadd sum r) (Fin 0) rates) (Fin (real (length rates)));
            variance = jdiv (foldl (\<lambda>sum r. jadd sum (jmul (jsub r mean) (jsub r mean)))
                               (Fin 0) rates)
                            (Fin (real (length rates)));
            volatility = jmul (jdiv (jsqrt variance) mean) (Fin 100)
        in volatility)"

text \<open>
  The body of \<open>recentData.forEach((point, index) => ...)\<close>, from the index \<open>i\<close> on, over
  the accumulators \<open>(sumX, sumY, sumXY, sumXX)\<close>.
\<close>

fun forEach_sums ::
  "nat \<Rightarrow> observation list \<Rightarrow> jsnum \<times> jsnum \<times> jsnum \<times> jsnum \<Rightarrow> jsnum \<times> jsnum \<times> jsnum \<times> jsnum" where
  "forEach_sums i [] acc = acc"
| "forEach_sums i (point # ps) (sumX, sumY, sumXY, sumXX) =
     forEach_sums (Suc i) ps
       (jadd sumX (Fin (real i)),
        jadd sumY (Fin (rate point)),
        jadd sumXY (jmul (Fin (real i)) (Fin (rate point))),
        jadd sumXX (jmul (Fin (real i)) (Fin (real i))))"

definition calculateProjection :: "observation list \<Rightarrow> jsnum" where
  "calculateProjection data =
     (if length data < 5 then Fin 0
      else
        let recentData = slice_last 14 data;
            n = Fin (real (length recentData))
        in case forEach_sums 0 recentData (Fin 0, Fin 0, Fin 0, Fin 0) of
             (sumX, sumY, sumXY, sumXX) \<Rightarrow>
               let slope = jdiv (jsub (jmul n sumXY) (jmul sumX sumY))
                                (jsub (jmul n sumXX) (jmul sumX sumX));
                   intercept = jdiv (jsub sumY (jmul slope sumX)) n;
                   futureX = jadd n (Fin 7);
                   projectedRate = jadd (jmul slope futureX) intercept;
                   currentRate = Fin (rate (data ! (length data - 1)))
               in jmul (jdiv (jsub projectedRate currentRate) currentRate) (Fin 100))"

subsection \<open>updateInvestmentRecommendation\<close>

text \<open>
  What the recommendation card is set to: the headline of the text, its risk level and the
  class of the card.
\<close>

datatype signal = STRONG_BUY | MODERATE_BUY | HOLD_WAIT | NEUTRAL

datatype riskLevel = Low | Medium | High_if_converting_now

datatype cardClass = recommendation_bullish | recommendation_neutral | recommendation_bearish

record recommendation =
  headline :: signal
  risk :: riskLevel
  card :: cardClass

definition investment_logic :: "jsnum \<Rightarrow> jsnum \<Rightarrow> recommendation" where
  "investment_logic trend7d volatility =
     (if jgt trend7d (Fin 2) \<and> jlt volatility (Fin 2)
      then \<lparr>headline = STRONG_BUY, risk = Low, card = recommendation_bullish\<rparr>
      else if jgt trend7d (Fin (1 / 2)) \<and> jlt volatility (Fin 3)
      then \<lparr>headline = MODERATE_BUY, risk = Medium, card = recommendation_neutral\<rparr>
      else if jlt trend7d (Fin (- 2))
      then \<lparr>headline = HOLD_WAIT, risk = High_if_converting_now, card = recommendation_bearish\<rparr>
      else \<lparr>headline = NEUTRAL, risk = Medium, card = recommendation_neutral\<rparr>)"

text \<open>\<open>None\<close>: the function returns before it touches the card (fewer than 7 points).\<close>

definition updateInvestmentRecommendation :: "observation list \<Rightarrow> recommendation option" where
  "updateInvestmentRecommendation historicalData =
     (let data = historicalData
      in if length data < 7 then None
         else
           let recent7Days = slice_last 7 data;
               trend7d = calculateTrend recent7Days;
               volatility = calculateVolatility data
           in Some (investment_logic trend7d volatility))"

text \<open>
  The decision table as the specification words it: rows of a condition on
  \<open>(trend7d, volatility)\<close> and an outcome, tried in order, and the outcome when no row
  matches.
\<close>

fun first_match :: "(('a \<Rightarrow> bool) \<times> 'b) list \<Rightarrow> 'b \<Rightarrow> 'a \<Rightarrow> 'b" where
  "first_match [] d x = d"
| "first_match ((c, y) # rows) d x = (if c x then y else first_match rows d x)"

definition decision_table :: "((real \<times> real \<Rightarrow> bool) \<times> signal \<times> riskLevel) list" where
  "decision_table =
     [(\<lambda>(trend7d, volatility). trend7d > 2 \<and> volatility < 2, (STRONG_BUY, Low)),
      (\<lambda>(trend7d, volatility). trend7d > 1 / 2 \<and> volatility < 3, (MODERATE_BUY, Medium)),
      (\<lambda>(trend7d, volatility). trend7d < - 2, (HOLD_WAIT, High_if_converting_now))]"

subsection \<open>checkAlerts\<close>

record alertSettings =
  settings_phoneNumber :: string
  settings_threshold :: jsnum
  settings_enabled :: bool

text \<open>Whether \<open>checkAlerts\<close> calls \<open>triggerAlert\<close> at the current rate.\<close>

definition checkAlerts :: "alertSettings \<Rightarrow> jsnum \<Rightarrow> bool" where
  "checkAlerts alertSettings currentRate =
     (if \<not> settings_enabled alertSettings \<or> \<not> num_truthy (settings_threshold alertSettings)
      then False
      else jge currentRate (settings_threshold alertSettings))"

section \<open>Example inputs\<close>

text \<open>
  A service with Twilio configured. The examples register the thresholds 0.028 and 0.029
  and pass them no strings, so of the three string operations only the printing of these
  two numbers is ever asked.
\<close>

definition example_env :: env where
  "example_env =
     \<lparr>client = True, twilioPhoneNumber = ''+15005550006'',
      StringToNumber = (\<lambda>s. NaN),
      NumberToString = (\<lambda>r. if r = 28 / 1000 then ''0.028'' else if r = 29 / 1000 then ''0.029'' else ''?''),
      StringLess = (\<lambda>s t. False)\<rparr>"

text \<open>
  The alert store after one registration, and the settings of the browser application for
  the same rule.
\<close>

definition example_body :: "real \<Rightarrow> registerBody" where
  "example_body t =
     \<lparr>rb_phoneNumber = JStr ''+66812345678'', rb_threshold = JNum t, rb_enabled = JBool True\<rparr>"

definition example_alert :: alert where
  "example_alert =
     \<lparr>phoneNumber = JStr ''+66812345678'', threshold = JNum (28 / 1000), createdAt = 0,
      triggered = False, triggeredAt = None\<rparr>"

definition example_store :: store where
  "example_store = snd (register_alert example_env 0 (example_body (28 / 1000)) [])"




text \<open>The example store after an evaluation at 0.030 has triggered its alert.\<close>

definition example_triggered_store :: store where
  "example_triggered_store =
     handle example_env (CheckAlerts (\<lambda>x. True) 5 (JNum (30 / 1000))) example_store"

definition example_settings :: alertSettings where
  "example_settings =
     \<lparr>settings_phoneNumber = ''+66812345678'', settings_threshold = Fin (28 / 1000),
      settings_enabled = True\<rparr>"

text \<open>
  A week of observations, one a day, rising by 0.0001 a day from 0.0270 to 0.0276.
\<close>

definition on_day :: "int \<Rightarrow> real \<Rightarrow> observation" where
  "on_day d r = \<lparr>date = ''day'', rate = r, timestamp = 86400000 * d\<rparr>"

definition example_week :: "observation list" where
  "example_week =
     [on_day 0 (270 / 10000), on_day 1 (271 / 10000), on_day 2 (272 / 10000),
      on_day 3 (273 / 10000), on_day 4 (274 / 10000), on_day 5 (275 / 10000),
      on_day 6 (276 / 10000)]"

section \<open>Properties of the SMS alert service\<close>

subsection \<open>The loop of check-alerts on numbers\<close>

lemma greater_equal_numbers [simp]:
  "greater_equal e (JNum r) (JNum t) = Some (t \<le> r)"
  by (auto simp: greater_equal_def jge_def)

lemma loop_numeric:
  "numeric m \<Longrightarrow>
   check_loop e create now (JNum r) m =
     \<lparr>lr_alerts = map (fire e create r now) m,
      lr_triggeredAlerts = map (event r) (filter (delivered e create r) (map snd m)),
      lr_calls = (if client e then map (message_for e r) (filter (due r) (map snd m)) else []),
      lr_threw = False\<rparr>"
proof (induction m)
  case Nil
  show ?case by simp
next
  case (Cons x m)
  obtain k a where x: "x = (k, a)" by (cases x)
  from Cons.prems x obtain t where t: "threshold a = JNum t" and nm: "numeric m"
    by (cases "threshold a") (auto simp: numeric_def)
  show ?case
    by (simp add: x t Cons.IH[OF nm] keep_def fire_def delivered_def due_def threshold_of_def
        message_for_def event_def Let_def)
qed

lemma check_alerts_numeric:
  assumes "numeric m" and "r \<noteq> 0"
  shows "check_alerts e create now (JNum r) m =
     (respond 200 True (Checked (length (filter (delivered e create r) (map snd m)))
                          (map (event r) (filter (delivered e create r) (map snd m)))),
      map (fire e create r now) m,
      if client e then map (message_for e r) (filter (due r) (map snd m)) else [])"
  using assms by (simp add: check_alerts_def loop_numeric Let_def)

text \<open>
  A threshold that is not a number stops the loop. With the string \<open>s\<close> stored as the
  threshold of an alert that is not triggered, a rate at or above the number \<open>s\<close> stands
  for passes the comparison and the message then fails on \<open>alert.threshold.toFixed\<close>:
  the response is status 500, and the alerts behind in \<open>activeAlerts\<close> are not looked at.
\<close>

lemma string_threshold_stops_the_loop:
  assumes "\<not> triggered a" and "threshold a = JStr s" and "StringToNumber e s = Fin t"
    and "t \<le> r" and "r \<noteq> 0"
  shows "check_alerts e create now (JNum r) ((k, a) # rest) =
           (respond 500 False (Error ''Failed to check alerts''), (k, a) # rest, [])"
  using assms by (simp add: check_alerts_def greater_equal_def jge_def thrown_def)

subsection \<open>The keys of the alert store\<close>

lemma map_set_keys:
  "map fst (map_set k v m) = (if k \<in> set (map fst m) then map fst m else map fst m @ [k])"
  by (induction m) force+

lemma map_delete_keys: "map fst (map_delete k m) = remove1 k (map fst m)"
  by (induction m) auto

lemma map_delete_sub: "set (map_delete k m) \<subseteq> set m"
  by (induction m) (auto split: if_splits)

lemma set_map_set: "set (map_set k v m) \<subseteq> insert (k, v) (set m)"
  by (induction m) (auto split: if_splits)

lemma map_of_map_set: "map_of (map_set k v m) = (map_of m)(k \<mapsto> v)"
  by (induction m) (auto simp: fun_eq_iff)

lemma map_set_mem: "(k, v) \<in> set (map_set k v m)"
  by (induction m) auto


lemma well_keyed_iff:
  "well_keyed e m = (distinct (map fst m) \<and> (\<forall>x\<in>set m. entry_ok e x))"
  by (simp add: well_keyed_def entry_ok_def list_all_iff)

lemma entry_ok_same: "fst x' = fst x \<Longrightarrow> rule_of x' = rule_of x \<Longrightarrow> entry_ok e x' = entry_ok e x"
  by (simp add: entry_ok_def rule_of_def)

lemma all_same:
  "map fst m' = map fst m \<Longrightarrow> map rule_of m' = map rule_of m \<Longrightarrow>
   (\<forall>x\<in>set m'. entry_ok e x) = (\<forall>x\<in>set m. entry_ok e x)"
proof (induction m arbitrary: m')
  case Nil
  then show ?case by simp
next
  case (Cons x m)
  then obtain x' m'' where m': "m' = x' # m''" by (cases m') auto
  with Cons.prems have "fst x' = fst x" "rule_of x' = rule_of x"
    "map fst m'' = map fst m" "map rule_of m'' = map rule_of m" by auto
  with Cons.IH[of m''] entry_ok_same[of x' x e] show ?case by (simp add: m')
qed

lemma well_keyed_same:
  "map fst m' = map fst m \<Longrightarrow> map rule_of m' = map rule_of m \<Longrightarrow> well_keyed e m \<Longrightarrow> well_keyed e m'"
  using all_same[of m' m e] by (simp add: well_keyed_iff)

lemma numeric_same:
  "map rule_of m' = map rule_of m \<Longrightarrow> numeric m \<Longrightarrow> numeric m'"
proof -
  assume a: "map rule_of m' = map rule_of m" and n: "numeric m"
  have "numeric m = list_all (\<lambda>p. is_number (snd p)) (map rule_of m)" for m
    by (simp add: numeric_def rule_of_def list_all_iff)
  with a n show ?thesis by metis
qed

lemma well_keyed_map_set:
  assumes "well_keyed e m" and "entry_ok e (k, v)"
  shows "well_keyed e (map_set k v m)"
proof -
  have "distinct (map fst (map_set k v m))"
    using assms(1) by (simp add: map_set_keys well_keyed_iff)
  moreover have "\<forall>x\<in>set (map_set k v m). entry_ok e x"
    using assms set_map_set[of k v m] by (auto simp: well_keyed_iff)
  ultimately show ?thesis by (simp add: well_keyed_iff)
qed

lemma well_keyed_map_delete:
  assumes "well_keyed e m"
  shows "well_keyed e (map_delete k m)"
proof -
  have "distinct (map fst (map_delete k m))"
    using assms by (simp add: map_delete_keys well_keyed_iff)
  moreover have "\<forall>x\<in>set (map_delete k m). entry_ok e x"
    using assms map_delete_sub[of k m] by (auto simp: well_keyed_iff)
  ultimately show ?thesis by (simp add: well_keyed_iff)
qed

lemma well_keyed_register:
  "well_keyed e m \<Longrightarrow> well_keyed e (snd (register_alert e now b m))"
  by (auto simp: register_alert_def fresh_def Let_def well_keyed_map_set well_keyed_map_delete entry_ok_def
      split: option.splits)

lemma check_loop_same:
  "map fst (lr_alerts (check_loop e create now c m)) = map fst m \<and>
   map rule_of (lr_alerts (check_loop e create now c m)) = map rule_of m"
proof (induction m)
  case Nil
  show ?case by simp
next
  case (Cons x m)
  obtain k a where x: "x = (k, a)" by (cases x)
  show ?case
  proof (cases "triggered a")
    case True
    with Cons.IH show ?thesis by (simp add: x keep_def rule_of_def)
  next
    case False
    show ?thesis
    proof (cases "greater_equal e c (threshold a)")
      case None
      with False show ?thesis by (simp add: x thrown_def)
    next
      case (Some b)
      show ?thesis
      proof (cases b)
        case False
        with Some \<open>\<not> triggered a\<close> Cons.IH show ?thesis
          by (simp add: x keep_def rule_of_def)
      next
        case True
        with Some \<open>\<not> triggered a\<close> Cons.IH show ?thesis
          by (cases c; cases "threshold a") (simp_all add: x thrown_def rule_of_def Let_def)
      qed
    qed
  qed
qed

lemma check_loop_keys:
  "map fst (lr_alerts (check_loop e create now c m)) = map fst m"
  using check_loop_same by blast

lemma check_loop_rules:
  "map rule_of (lr_alerts (check_loop e create now c m)) = map rule_of m"
  using check_loop_same by blast

lemma well_keyed_check:
  "well_keyed e m \<Longrightarrow> well_keyed e (fst (snd (check_alerts e create now c m)))"
  by (auto simp: check_alerts_def Let_def intro: well_keyed_same check_loop_keys check_loop_rules)

lemma reset_keys: "map fst (snd (reset_alerts m)) = map fst m"
  by (induction m) (auto simp: reset_alerts_def Let_def)

lemma reset_rules: "map rule_of (snd (reset_alerts m)) = map rule_of m"
  by (induction m) (auto simp: reset_alerts_def Let_def rule_of_def)

lemma well_keyed_reset:
  "well_keyed e m \<Longrightarrow> well_keyed e (snd (reset_alerts m))"
  by (rule well_keyed_same[OF reset_keys reset_rules])

lemma reset_untriggers: "\<forall>x\<in>set (snd (reset_alerts m)). \<not> triggered (snd x)"
  by (induction m) (auto simp: reset_alerts_def Let_def)

lemma well_keyed_handle: "well_keyed e m \<Longrightarrow> well_keyed e (handle e r m)"
  by (cases r) (simp_all add: well_keyed_register well_keyed_check well_keyed_reset)

lemma reachable_well_keyed: "reachable e m \<Longrightarrow> well_keyed e m"
proof (induction rule: reachable.induct)
  case start
  show ?case by (simp add: well_keyed_def)
next
  case (request m r)
  then show ?case by (simp add: well_keyed_handle)
qed

lemma well_keyed_rules: "well_keyed e m \<Longrightarrow> distinct (map rule_of m)"
proof (induction m)
  case Nil
  show ?case by simp
next
  case (Cons x m)
  then have wk: "well_keyed e m" and ox: "entry_ok e x" and nx: "fst x \<notin> fst ` set m"
    and om: "\<forall>y\<in>set m. entry_ok e y"
    by (auto simp: well_keyed_iff)
  have "rule_of x \<notin> rule_of ` set m"
  proof
    assume "rule_of x \<in> rule_of ` set m"
    then obtain y where y: "y \<in> set m" and "rule_of y = rule_of x" by auto
    with ox om have "fst y = fst x" by (auto simp: entry_ok_def rule_of_def)
    with y nx show False by (metis imageI)
  qed
  with Cons.IH[OF wk] show ?case by simp
qed

lemma fire_keys: "map fst (map (fire e create r now) m) = map fst m"
  by (induction m) (auto simp: fire_def)

lemma fire_rules: "map rule_of (map (fire e create r now) m) = map rule_of m"
  by (induction m) (auto simp: fire_def rule_of_def)



subsection \<open>Counting the alerts reported for one rule\<close>

lemma check_alerts_same:
  "map fst (fst (snd (check_alerts e create now c m))) = map fst m \<and>
   map rule_of (fst (snd (check_alerts e create now c m))) = map rule_of m"
  by (simp add: check_alerts_def Let_def check_loop_keys check_loop_rules)

lemma check_seq_same:
  "map fst (rr_alerts (check_seq e create now rs m)) = map fst m \<and>
   map rule_of (rr_alerts (check_seq e create now rs m)) = map rule_of m"
proof (induction rs arbitrary: m)
  case Nil
  show ?case by simp
next
  case (Cons r rs)
  obtain res m' calls where c: "check_alerts e create now (JNum r) m = (res, m', calls)"
    by (cases "check_alerts e create now (JNum r) m")
  with check_alerts_same[of e create now "JNum r" m]
  have "map fst m' = map fst m" "map rule_of m' = map rule_of m" by simp_all
  with Cons.IH[of m'] show ?case by (simp add: c Let_def)
qed

lemma numeric_map_set:
  "numeric m \<Longrightarrow> is_number (threshold v) \<Longrightarrow> numeric (map_set k v m)"
  using set_map_set[of k v m] by (auto simp: numeric_def list_all_iff)

lemma fired_for_step:
  "distinct (map rule_of m) \<Longrightarrow>
   length (fired_for k (map (event r) (filter P (map snd m)))) =
     (if \<exists>x\<in>set m. rule_of x = k \<and> P (snd x) then 1 else 0)"
proof (induction m)
  case Nil
  show ?case by (simp add: fired_for_def)
next
  case (Cons x m)
  then have d: "distinct (map rule_of m)" and nx: "rule_of x \<notin> rule_of ` set m" by auto
  have step: "fired_for k (map (event r) (filter P (map snd (x # m)))) =
      (if rule_of x = k \<and> P (snd x) then [event r (snd x)] else []) @
      fired_for k (map (event r) (filter P (map snd m)))"
    by (simp add: fired_for_def event_def rule_of_def)
  show ?case
  proof (cases "rule_of x = k")
    case True
    with nx have "\<not> (\<exists>y\<in>set m. rule_of y = k \<and> P (snd y))" by (metis imageI)
    with True Cons.IH[OF d] show ?thesis unfolding step by simp
  next
    case False
    with Cons.IH[OF d] show ?thesis unfolding step by simp
  qed
qed

lemma fire_untriggered:
  assumes "client e \<longrightarrow> (\<forall>x. create x)"
  shows "(\<exists>x\<in>set (map (fire e create r now) m). rule_of x = (p, JNum T) \<and> \<not> triggered (snd x)) =
         (\<not> T \<le> r \<and> (\<exists>x\<in>set m. rule_of x = (p, JNum T) \<and> \<not> triggered (snd x)))"
  using assms
  by (induction m) (auto simp: fire_def delivered_def due_def threshold_of_def rule_of_def)

lemma check_seq_count:
  assumes "client e \<longrightarrow> (\<forall>x. create x)"
  shows "numeric m \<Longrightarrow> distinct (map rule_of m) \<Longrightarrow> \<forall>r\<in>set rs. r \<noteq> 0 \<Longrightarrow>
    fires e create now (p, JNum T) rs m =
     (if (\<exists>x\<in>set m. rule_of x = (p, JNum T) \<and> \<not> triggered (snd x)) \<and> (\<exists>r\<in>set rs. T \<le> r)
      then 1 else 0)"
proof (induction rs arbitrary: m)
  case Nil
  then show ?case by (simp add: fires_def fired_for_def)
next
  case (Cons r rs)
  have r0: "r \<noteq> 0" and rs0: "\<forall>r\<in>set rs. r \<noteq> 0" using Cons.prems by auto
  let ?m' = "map (fire e create r now) m"
  have n': "numeric ?m'" using fire_rules Cons.prems(1) by (rule numeric_same)
  have d': "distinct (map rule_of ?m')" using Cons.prems(2) by (simp only: fire_rules)
  have split: "fires e create now (p, JNum T) (r # rs) m =
      length (fired_for (p, JNum T) (map (event r) (filter (delivered e create r) (map snd m)))) +
      fires e create now (p, JNum T) rs ?m'"
    by (simp add: fires_def check_alerts_numeric[OF Cons.prems(1) r0] Let_def reported_def
        respond_def fired_for_def)
  have now: "(\<exists>x\<in>set m. rule_of x = (p, JNum T) \<and> delivered e create r (snd x)) =
      (T \<le> r \<and> (\<exists>x\<in>set m. rule_of x = (p, JNum T) \<and> \<not> triggered (snd x)))"
    using assms by (auto simp: delivered_def due_def threshold_of_def rule_of_def)
  show ?case
    unfolding split fired_for_step[OF Cons.prems(2)] Cons.IH[OF n' d' rs0]
      fire_untriggered[OF assms] now
    by auto
qed


subsection \<open>The example stores\<close>

lemma example_store_eq: "example_store = [(''+66812345678_0.028'', example_alert)]"
  by (simp add: example_store_def register_alert_def fresh_def example_body_def alertId_of_def example_env_def
      example_alert_def)

lemma example_store_reachable: "reachable example_env example_store"
proof -
  have "reachable example_env (handle example_env (RegisterAlert 0 (example_body (28 / 1000))) [])"
    by (rule reachable.request) (rule reachable.start)
  then show ?thesis by (simp add: example_store_def)
qed

lemma example_store_numeric: "numeric example_store"
  by (simp add: example_store_eq numeric_def example_alert_def)

subsection \<open>One alert per crossing\<close>

text \<open>
  Claim C1, as the code has it. Take a reachable state of the service in which every stored
  threshold is a number, and in it a rule with the threshold \<open>T\<close> that is not
  triggered; let no message be rejected, and let the rates be numbers other than 0. Then

  \<^item> a sequence of evaluations reports the rule exactly once if some rate is at or above
    \<open>T\<close>, and not at all otherwise: once reported it is not reported again, neither while
    the rate stays up nor after the rate has dropped below \<open>T\<close> and crossed again;
  \<^item> after reset-alerts the rule is armed again: the evaluations that follow report it once
    if one of their rates is at or above \<open>T\<close>;
  \<^item> after a new registration of the same recipient and threshold the rule is armed again
    in the same way.

  The browser's \<open>checkAlerts\<close> keeps no state: with alerts enabled and a non-zero threshold
  it raises the alert at every evaluation whose rate is at or above the threshold.
\<close>

theorem alert_fires_once_until_reset:
  assumes "reachable e m" and "numeric m"
    and "(k, a) \<in> set m" and "\<not> triggered a" and "threshold a = JNum T"
    and "client e \<longrightarrow> (\<forall>x. create x)"
    and "\<forall>r\<in>set rs. r \<noteq> 0" and "\<forall>r\<in>set rs'. r \<noteq> 0"
    and "rb_phoneNumber b = phoneNumber a" and "rb_threshold b = threshold a"
    and "truthy (rb_enabled b)"
  shows "fires e create now (phoneNumber a, JNum T) rs m = (if \<exists>r\<in>set rs. T \<le> r then 1 else 0) \<and>
         fires e create now' (phoneNumber a, JNum T) rs'
             (snd (reset_alerts (rr_alerts (check_seq e create now rs m)))) =
           (if \<exists>r\<in>set rs'. T \<le> r then 1 else 0) \<and>
         fires e create now' (phoneNumber a, JNum T) rs'
             (snd (register_alert e now' b (rr_alerts (check_seq e create now rs m)))) =
           (if \<exists>r\<in>set rs'. T \<le> r then 1 else 0) \<and>
         (settings_enabled s \<and> num_truthy (settings_threshold s) \<longrightarrow>
            filter (checkAlerts s) cs = filter (\<lambda>c. jge c (settings_threshold s)) cs)"
proof -
  let ?k = "(phoneNumber a, JNum T)"
  let ?run = "rr_alerts (check_seq e create now rs m)"
  have wk: "well_keyed e m" using assms(1) by (rule reachable_well_keyed)
  have rule: "rule_of (k, a) = ?k" using assms(5) by (simp add: rule_of_def)
  have d: "distinct (map rule_of m)" using wk by (rule well_keyed_rules)
  have ex: "\<exists>x\<in>set m. rule_of x = ?k \<and> \<not> triggered (snd x)"
    using assms(3,4) rule by force
  have 1: "fires e create now ?k rs m = (if \<exists>r\<in>set rs. T \<le> r then 1 else 0)"
    using check_seq_count[OF assms(6,2) d assms(7), of now "phoneNumber a" T] ex by simp
  have keys: "map fst ?run = map fst m" and rules: "map rule_of ?run = map rule_of m"
    using check_seq_same by blast+
  have wk_run: "well_keyed e ?run" using keys rules wk by (rule well_keyed_same)
  have n_run: "numeric ?run" using rules assms(2) by (rule numeric_same)
  have 2: "fires e create now' ?k rs' (snd (reset_alerts ?run)) =
      (if \<exists>r\<in>set rs'. T \<le> r then 1 else 0)"
  proof -
    let ?m2 = "snd (reset_alerts ?run)"
    have r2: "map rule_of ?m2 = map rule_of m" by (simp add: reset_rules rules)
    have "?k \<in> set (map rule_of ?m2)" unfolding r2 using assms(3) rule by force
    then obtain x where "x \<in> set ?m2" and "rule_of x = ?k" by auto
    with reset_untriggers[of ?run]
    have ex2: "\<exists>x\<in>set ?m2. rule_of x = ?k \<and> \<not> triggered (snd x)" by blast
    have n2: "numeric ?m2" using r2 assms(2) by (rule numeric_same)
    have d2: "distinct (map rule_of ?m2)" using d by (simp only: r2)
    show ?thesis
      using check_seq_count[OF assms(6) n2 d2 assms(8), of now' "phoneNumber a" T] ex2 by simp
  qed
  have 3: "fires e create now' ?k rs' (snd (register_alert e now' b ?run)) =
      (if \<exists>r\<in>set rs'. T \<le> r then 1 else 0)"
  proof -
    let ?v = "\<lparr>phoneNumber = rb_phoneNumber b, threshold = rb_threshold b, createdAt = now',
               triggered = False, triggeredAt = None\<rparr>"
    let ?m3 = "snd (register_alert e now' b ?run)"
    from wk assms(3) have ok: "entry_ok e (k, a)" by (auto simp: well_keyed_iff)
    then have eq: "?m3 = map_set k ?v ?run"
      using assms(9,10,11) by (simp add: register_alert_def fresh_def entry_ok_def Let_def)
    have "(k, ?v) \<in> set ?m3" unfolding eq by (rule map_set_mem)
    moreover have "rule_of (k, ?v) = ?k" using assms(5,9,10) by (simp add: rule_of_def)
    ultimately have ex3: "\<exists>x\<in>set ?m3. rule_of x = ?k \<and> \<not> triggered (snd x)" by force
    have n3: "numeric ?m3" unfolding eq using n_run assms(5,10) by (intro numeric_map_set) simp_all
    have "well_keyed e ?m3" using wk_run by (rule well_keyed_register)
    then have d3: "distinct (map rule_of ?m3)" by (rule well_keyed_rules)
    show ?thesis
      using check_seq_count[OF assms(6) n3 d3 assms(8), of now' "phoneNumber a" T] ex3 by simp
  qed
  have 4: "settings_enabled s \<and> num_truthy (settings_threshold s) \<longrightarrow>
            filter (checkAlerts s) cs = filter (\<lambda>c. jge c (settings_threshold s)) cs"
    by (simp add: checkAlerts_def cong: filter_cong)
  from 1 2 3 4 show ?thesis by blast
qed


text \<open>
  The rule of the example store over the rates 0.027, 0.029, 0.030, 0.027, 0.029: one alert
  in all; then, after a reset or after a new registration, over 0.027, 0.029: one alert
  again. The browser over 0.027, 0.029, 0.030: an alert at each of the last two.
\<close>

theorem alert_fires_once_until_reset_witness:
  "fires example_env (\<lambda>x. True) 5 (JStr ''+66812345678'', JNum (28 / 1000))
     [27 / 1000, 29 / 1000, 30 / 1000, 27 / 1000, 29 / 1000] example_store = 1 \<and>
   fires example_env (\<lambda>x. True) 6 (JStr ''+66812345678'', JNum (28 / 1000)) [27 / 1000, 29 / 1000]
     (snd (reset_alerts (rr_alerts (check_seq example_env (\<lambda>x. True) 5
        [27 / 1000, 29 / 1000, 30 / 1000, 27 / 1000, 29 / 1000] example_store)))) = 1 \<and>
   fires example_env (\<lambda>x. True) 6 (JStr ''+66812345678'', JNum (28 / 1000)) [27 / 1000, 29 / 1000]
     (snd (register_alert example_env 6 (example_body (28 / 1000))
        (rr_alerts (check_seq example_env (\<lambda>x. True) 5
           [27 / 1000, 29 / 1000, 30 / 1000, 27 / 1000, 29 / 1000] example_store)))) = 1 \<and>
   filter (checkAlerts example_settings) [Fin (27 / 1000), Fin (29 / 1000), Fin (30 / 1000)] =
     [Fin (29 / 1000), Fin (30 / 1000)]"
proof -
  have mem: "(''+66812345678_0.028'', example_alert) \<in> set example_store"
    by (simp add: example_store_eq)
  have a: "\<not> triggered example_alert" "threshold example_alert = JNum (28 / 1000)"
    "rb_phoneNumber (example_body (28 / 1000)) = phoneNumber example_alert"
    "rb_threshold (example_body (28 / 1000)) = threshold example_alert"
    "truthy (rb_enabled (example_body (28 / 1000)))"
    by (simp_all add: example_alert_def example_body_def)
  have p: "phoneNumber example_alert = JStr ''+66812345678''" by (simp add: example_alert_def)
  have h6: "client example_env \<longrightarrow> (\<forall>x. (\<lambda>x::sms. True) x)" by simp
  have h7: "\<forall>r\<in>set [27 / 1000, 29 / 1000, 30 / 1000, 27 / 1000, 29 / 1000 :: real]. r \<noteq> 0" by simp
  have h8: "\<forall>r\<in>set [27 / 1000, 29 / 1000 :: real]. r \<noteq> 0" by simp
  have c1: "\<exists>r\<in>set [27 / 1000, 29 / 1000, 30 / 1000, 27 / 1000, 29 / 1000 :: real]. 28 / 1000 \<le> r"
    by (rule bexI[of _ "29 / 1000"]) simp_all
  have c2: "\<exists>r\<in>set [27 / 1000, 29 / 1000 :: real]. 28 / 1000 \<le> r"
    by (rule bexI[of _ "29 / 1000"]) simp_all
  note t = alert_fires_once_until_reset[OF example_store_reachable example_store_numeric mem a(1,2)
      h6 h7 h8 a(3,4,5), where now = 5 and now' = 6 and s = example_settings
      and cs = "[Fin (27 / 1000), Fin (29 / 1000), Fin (30 / 1000)]", unfolded p]
  have 1: "fires example_env (\<lambda>x. True) 5 (JStr ''+66812345678'', JNum (28 / 1000))
     [27 / 1000, 29 / 1000, 30 / 1000, 27 / 1000, 29 / 1000] example_store = 1"
    using t[THEN conjunct1] c1 by (simp only: if_True)
  have 2: "fires example_env (\<lambda>x. True) 6 (JStr ''+66812345678'', JNum (28 / 1000)) [27 / 1000, 29 / 1000]
     (snd (reset_alerts (rr_alerts (check_seq example_env (\<lambda>x. True) 5
        [27 / 1000, 29 / 1000, 30 / 1000, 27 / 1000, 29 / 1000] example_store)))) = 1"
    using t[THEN conjunct2, THEN conjunct1] c2 by (simp only: if_True)
  have 3: "fires example_env (\<lambda>x. True) 6 (JStr ''+66812345678'', JNum (28 / 1000)) [27 / 1000, 29 / 1000]
     (snd (register_alert example_env 6 (example_body (28 / 1000))
        (rr_alerts (check_seq example_env (\<lambda>x. True) 5
           [27 / 1000, 29 / 1000, 30 / 1000, 27 / 1000, 29 / 1000] example_store)))) = 1"
    using t[THEN conjunct2, THEN conjunct2, THEN conjunct1] c2 by (simp only: if_True)
  have 4: "filter (checkAlerts example_settings) [Fin (27 / 1000), Fin (29 / 1000), Fin (30 / 1000)] =
     [Fin (29 / 1000), Fin (30 / 1000)]"
    using t[THEN conjunct2, THEN conjunct2, THEN conjunct2]
    by (simp add: example_settings_def jge_def)
  from 1 2 3 4 show ?thesis by blast
qed

text \<open>
  Claim C1 as it is stated fails on both programs. The rates 0.027, 0.029, 0.027, 0.029
  cross the threshold 0.028 twice, and the service reports one alert, not two; the rates
  0.027, 0.029, 0.029 cross it once and the browser raises the alert twice.
\<close>

theorem no_second_alert_and_repeated_alerts:
  "length (rr_triggeredAlerts (check_seq example_env (\<lambda>x. True) 5
        [27 / 1000, 29 / 1000, 27 / 1000, 29 / 1000] example_store)) = 1 \<and>
   map (checkAlerts example_settings) [Fin (27 / 1000), Fin (29 / 1000), Fin (29 / 1000)] =
     [False, True, True]"
  by (simp add: check_alerts_def keep_def example_store_eq example_alert_def Let_def reported_def
      respond_def checkAlerts_def example_settings_def jge_def)





subsection \<open>A message that the transport rejects\<close>









subsection \<open>Rules per recipient\<close>

lemma example_triggered_store_eq:
  "example_triggered_store =
     [(''+66812345678_0.028'', example_alert\<lparr>triggered := True, triggeredAt := Some 5\<rparr>)]"
  by (simp add: example_triggered_store_def check_alerts_def example_store_eq example_alert_def
      example_env_def Let_def)

lemma example_triggered_store_reachable: "reachable example_env example_triggered_store"
  unfolding example_triggered_store_def
  by (rule reachable.request) (rule example_store_reachable)

text \<open>
  Claim C8, as the code has it. In every reachable state of \<open>activeAlerts\<close> no two
  entries have the same recipient and the same threshold. A registration that is accepted
  and enabled stores its new entry (not triggered, created now) under the key of its
  recipient and threshold and leaves every other key as it was: where the key was stored
  the entry replaces the old one in its place, and the number of rules stays; where it
  was not, the rule is added at the end, and the rules that were there stay. The key of a
  recipient and threshold that are stored is stored.
\<close>

theorem one_rule_per_recipient_and_threshold:
  assumes "reachable e m"
  shows "distinct (map rule_of m) \<and>
         (\<forall>now b k.
            truthy (rb_phoneNumber b) \<and> truthy (rb_threshold b) \<and> truthy (rb_enabled b) \<and>
            alertId_of e (rb_phoneNumber b) (rb_threshold b) = Some k \<longrightarrow>
              map_of (snd (register_alert e now b m)) = (map_of m)(k \<mapsto> fresh now b) \<and>
              map fst (snd (register_alert e now b m)) =
                (if k \<in> set (map fst m) then map fst m else map fst m @ [k]) \<and>
              ((rb_phoneNumber b, rb_threshold b) \<in> set (map rule_of m) \<longrightarrow> k \<in> set (map fst m)))"
proof -
  have wk: "well_keyed e m" using assms by (rule reachable_well_keyed)
  then have d: "distinct (map rule_of m)" by (rule well_keyed_rules)
  have stored: "k \<in> set (map fst m)"
    if "(p, t) \<in> set (map rule_of m)" and "alertId_of e p t = Some k" for p t k
  proof -
    from that(1) obtain x where x: "x \<in> set m" and "rule_of x = (p, t)" by auto
    with wk that(2) have "fst x = k" by (auto simp: well_keyed_iff entry_ok_def rule_of_def)
    with x show ?thesis by force
  qed
  have "snd (register_alert e now b m) = map_set k (fresh now b) m"
    if "truthy (rb_phoneNumber b)" "truthy (rb_threshold b)" "truthy (rb_enabled b)"
      "alertId_of e (rb_phoneNumber b) (rb_threshold b) = Some k" for now b k
    using that by (simp add: register_alert_def fresh_def Let_def)
  with d stored show ?thesis
    by (simp add: map_of_map_set map_set_keys)
qed

text \<open>
  The recipient of the example store, whose alert has been triggered, registers again: with
  the same threshold the one rule is replaced by a new one, with the threshold 0.029 there
  are two rules.
\<close>

theorem one_rule_per_recipient_and_threshold_witness:
  "map_of (snd (register_alert example_env 7 (example_body (28 / 1000)) example_triggered_store))
     ''+66812345678_0.028'' = Some (fresh 7 (example_body (28 / 1000))) \<and>
   map fst (snd (register_alert example_env 7 (example_body (28 / 1000)) example_triggered_store)) =
     [''+66812345678_0.028''] \<and>
   map fst (snd (register_alert example_env 7 (example_body (29 / 1000)) example_triggered_store)) =
     [''+66812345678_0.028'', ''+66812345678_0.029'']"
proof -
  note t = one_rule_per_recipient_and_threshold[OF example_triggered_store_reachable,
      THEN conjunct2, rule_format]
  have k28: "truthy (rb_phoneNumber (example_body (28 / 1000))) \<and>
      truthy (rb_threshold (example_body (28 / 1000))) \<and>
      truthy (rb_enabled (example_body (28 / 1000))) \<and>
      alertId_of example_env (rb_phoneNumber (example_body (28 / 1000)))
        (rb_threshold (example_body (28 / 1000))) = Some ''+66812345678_0.028''"
    by (simp add: example_body_def alertId_of_def example_env_def)
  have k29: "truthy (rb_phoneNumber (example_body (29 / 1000))) \<and>
      truthy (rb_threshold (example_body (29 / 1000))) \<and>
      truthy (rb_enabled (example_body (29 / 1000))) \<and>
      alertId_of example_env (rb_phoneNumber (example_body (29 / 1000)))
        (rb_threshold (example_body (29 / 1000))) = Some ''+66812345678_0.029''"
    by (simp add: example_body_def alertId_of_def example_env_def)
  from t[OF k28, of 7] t[OF k29, of 7] show ?thesis
    by (simp add: example_triggered_store_eq)
qed

text \<open>
  Claim C8 as it is stated fails: the recipient of the example store registers the
  threshold 0.029 after 0.028, and the store then holds two rules for that recipient.
\<close>

theorem second_threshold_adds_a_rule:
  "map rule_of (snd (register_alert example_env 1 (example_body (29 / 1000)) example_store)) =
   [(JStr ''+66812345678'', JNum (28 / 1000)), (JStr ''+66812345678'', JNum (29 / 1000))]"
  by (simp add: example_store_eq register_alert_def fresh_def rule_of_def example_body_def alertId_of_def
      example_env_def example_alert_def)

subsection \<open>The masked phone number\<close>

lemma mask_short: "length s < 11 \<Longrightarrow> mask s = s"
  by (induction s) auto

text \<open>
  Claim C9 fails on a number without eleven digits in a row: for an alert registered with
  the ten-digit number +6581234567 the status report returns the number as it was stored.
\<close>

theorem alerts_status_short_number_unmasked:
  "alerts_status example_env
     (snd (register_alert example_env 0
        \<lparr>rb_phoneNumber = JStr ''+6581234567'', rb_threshold = JNum (28 / 1000),
         rb_enabled = JBool True\<rparr> [])) =
   respond 200 True
     (StatusReport 1
        [\<lparr>as_phoneNumber = ''+6581234567'', as_threshold = JNum (28 / 1000), as_triggered = False,
          as_createdAt = 0, as_triggeredAt = None\<rparr>] True)"
  by (simp add: alerts_status_def register_alert_def fresh_def alertId_of_def example_env_def digit_def
      string_of_def)

text \<open>The registration of that number is accepted, and the report shows the number in full.\<close>

theorem alerts_status_short_number_unmasked_witness:
  "json (alerts_status example_env
     (snd (register_alert example_env 0
        \<lparr>rb_phoneNumber = JStr ''+6581234567'', rb_threshold = JNum (28 / 1000),
         rb_enabled = JBool True\<rparr> []))) =
   StatusReport 1
     [\<lparr>as_phoneNumber = ''+6581234567'', as_threshold = JNum (28 / 1000), as_triggered = False,
       as_createdAt = 0, as_triggeredAt = None\<rparr>] True"
  using alerts_status_short_number_unmasked by (simp add: respond_def)

subsection \<open>A falsy current rate\<close>

text \<open>
  Claim C10. A current rate that is falsy (the number 0, \<open>null\<close>, \<open>false\<close>, the empty
  string) is answered as a missing one is: status 400 with success false and the error
  text, the alerts unchanged, and no call to Twilio.
\<close>

theorem check_alerts_rejects_falsy_rate:
  assumes "\<not> truthy currentRate"
  shows "check_alerts e create now currentRate m = check_alerts e create now JUndefined m \<and>
         check_alerts e create now currentRate m =
           (respond 400 False (Error ''Current rate is required''), m, [])"
  using assms by (simp add: check_alerts_def)

theorem check_alerts_rejects_falsy_rate_witness:
  "\<not> truthy (JNum 0) \<and>
   check_alerts example_env (\<lambda>x. True) 5 (JNum 0) example_store =
     (respond 400 False (Error ''Current rate is required''), example_store, [])"
proof -
  have h: "\<not> truthy (JNum 0)" by simp
  from check_alerts_rejects_falsy_rate[OF h, where e = example_env and create = "\<lambda>x. True"
      and now = 5 and m = example_store] h
  show ?thesis by blast
qed

section \<open>Properties of the analytics\<close>

lemma jsub_Fin [simp]: "jsub (Fin a) (Fin b) = Fin (a - b)"
  by (simp add: jsub_def)

subsection \<open>The trend\<close>

text \<open>
  Claim C2. On a slice of at least two points \<open>calculateTrend\<close> returns the change from
  the first rate to the last, divided by the first rate, times 100, in JavaScript's
  arithmetic; when the first rate is not zero this is the real number
  \<open>(last - first) / first * 100\<close>.
\<close>

theorem trend_is_percentage_change:
  assumes "2 \<le> length data"
  shows "calculateTrend data =
           jmul (jdiv (jsub (Fin (rate (last data))) (Fin (rate (hd data)))) (Fin (rate (hd data))))
                (Fin 100) \<and>
         (rate (hd data) \<noteq> 0 \<longrightarrow>
            calculateTrend data =
              Fin ((rate (last data) - rate (hd data)) / rate (hd data) * 100))"
proof -
  from assms have ne: "data \<noteq> []" by auto
  then have "data ! 0 = hd data" and "data ! (length data - 1) = last data"
    by (simp_all add: hd_conv_nth last_conv_nth)
  with assms show ?thesis
    by (simp add: calculateTrend_def Let_def)
qed

theorem trend_is_percentage_change_witness:
  "calculateTrend example_week = Fin ((276 / 10000 - 270 / 10000) / (270 / 10000) * 100)"
proof -
  have "2 \<le> length example_week" by (simp add: example_week_def)
  from trend_is_percentage_change[OF this] show ?thesis
    by (simp add: example_week_def on_day_def)
qed

subsection \<open>The projection\<close>

lemma forEach_sums_Fin:
  "forEach_sums i ps (Fin sx, Fin sy, Fin sxy, Fin sxx) =
     (Fin (sx + (\<Sum>j<length ps. real (i + j))),
      Fin (sy + (\<Sum>j<length ps. rate (ps ! j))),
      Fin (sxy + (\<Sum>j<length ps. real (i + j) * rate (ps ! j))),
      Fin (sxx + (\<Sum>j<length ps. real (i + j) * real (i + j))))"
proof (induction ps arbitrary: i sx sy sxy sxx)
  case Nil
  show ?case by simp
next
  case (Cons p ps)
  show ?case
    by (simp add: Cons.IH sum.lessThan_Suc_shift add_ac del: sum.lessThan_Suc)
qed

lemma sum_indices: "2 * (\<Sum>j<n. real j) = real n * (real n - 1)"
  by (induction n) (simp_all add: algebra_simps)

lemma sum_squares: "6 * (\<Sum>j<n. real j * real j) = real n * (real n - 1) * (2 * real n - 1)"
  by (induction n) (simp_all add: algebra_simps)

lemma denominator_closed:
  "12 * (real n * (\<Sum>j<n. real j * real j) - (\<Sum>j<n. real j) * (\<Sum>j<n. real j)) =
     real n * real n * (real n - 1) * (real n + 1)"
proof -
  define s1 where "s1 = (\<Sum>j<n. real j)"
  define s2 where "s2 = (\<Sum>j<n. real j * real j)"
  have 1: "2 * s1 = real n * (real n - 1)" unfolding s1_def by (rule sum_indices)
  have 2: "6 * s2 = real n * (real n - 1) * (2 * real n - 1)" unfolding s2_def by (rule sum_squares)
  have "12 * (real n * s2 - s1 * s1) = 2 * real n * (6 * s2) - 3 * ((2 * s1) * (2 * s1))"
    by (simp add: algebra_simps)
  also have "\<dots> = real n * real n * (real n - 1) * (real n + 1)"
    unfolding 1 2 by (simp add: algebra_simps)
  finally show ?thesis unfolding s1_def s2_def .
qed

lemma denominator_positive:
  assumes "2 \<le> n"
  shows "0 < real n * (\<Sum>j<n. real j * real j) - (\<Sum>j<n. real j) * (\<Sum>j<n. real j)"
proof -
  define d where "d = real n * (\<Sum>j<n. real j * real j) - (\<Sum>j<n. real j) * (\<Sum>j<n. real j)"
  have "0 < real n * real n * (real n - 1) * (real n + 1)"
    using assms by simp
  moreover have "12 * d = real n * real n * (real n - 1) * (real n + 1)"
    unfolding d_def by (rule denominator_closed)
  ultimately have "0 < d" by linarith
  then show ?thesis unfolding d_def .
qed

text \<open>
  The denominator of the slope, \<open>n * sumXX - sumX * sumX\<close>, is a positive number on
  every list of at least two points: the indices \<open>0, 1, ...\<close> are never all equal, so
  the slope is never a division by zero.
\<close>

lemma regression_denominator_positive:
  assumes "2 \<le> length ps"
    and "forEach_sums 0 ps (Fin 0, Fin 0, Fin 0, Fin 0) = (sumX, sumY, sumXY, sumXX)"
  shows "\<exists>d>0. jsub (jmul (Fin (real (length ps))) sumXX) (jmul sumX sumX) = Fin d"
  using assms(2) denominator_positive[OF assms(1)] by (auto simp: forEach_sums_Fin)

lemma slice_last_nth:
  "j < length (slice_last k xs) \<Longrightarrow> slice_last k xs ! j = xs ! (length xs - k + j)"
  by (simp add: slice_last_def)

text \<open>
  On rates that are linear in the index, with slope \<open>b\<close>, the projection is the
  percentage that eight steps of \<open>b\<close> are of the last rate: the fitted line is read at
  \<open>futureX = n + 7\<close>, and the last point has the index \<open>n - 1\<close>.
\<close>

lemma projection_linear:
  assumes len: "5 \<le> length data"
    and lin: "\<forall>i<length data. rate (data ! i) = a + b * real i"
    and cur: "rate (data ! (length data - 1)) \<noteq> 0"
  shows "calculateProjection data = Fin (8 * b / rate (data ! (length data - 1)) * 100)"
proof -
  define ps where "ps = slice_last 14 data"
  define n where "n = length ps"
  define off where "off = length data - 14"
  define a' where "a' = a + b * real off"
  define s1 where "s1 = (\<Sum>j<n. real j)"
  define s2 where "s2 = (\<Sum>j<n. real j * real j)"
  define sy where "sy = real n * a' + b * s1"
  define sxy where "sxy = a' * s1 + b * s2"
  define c where "c = rate (data ! (length data - 1))"
  have n: "length data = off + n" and n5: "5 \<le> n"
    using len by (auto simp: n_def ps_def off_def slice_last_def)
  have nth: "rate (ps ! j) = a' + b * real j" if "j < n" for j
  proof -
    have "ps ! j = data ! (off + j)"
      using that unfolding ps_def n_def off_def by (rule slice_last_nth)
    moreover have "off + j < length data" using that n by simp
    ultimately show ?thesis using lin by (simp add: a'_def algebra_simps)
  qed
  have c: "c = a' + b * (real n - 1)"
  proof -
    have "length data - 1 = off + (n - 1)" and "n - 1 < n" using n n5 by auto
    then have "data ! (length data - 1) = ps ! (n - 1)"
      using slice_last_nth[of "n - 1" 14 data] by (simp add: ps_def n_def off_def)
    with nth[of "n - 1"] n5 show ?thesis
      by (simp add: c_def of_nat_diff)
  qed
  have "(\<Sum>j<n. rate (ps ! j)) = sy"
    using nth by (simp add: sy_def s1_def sum.distrib sum_distrib_left)
  moreover have "(\<Sum>j<n. real j * rate (ps ! j)) = sxy"
    using nth by (simp add: sxy_def s1_def s2_def sum.distrib sum_distrib_left algebra_simps)
  ultimately have sums:
    "forEach_sums 0 ps (Fin 0, Fin 0, Fin 0, Fin 0) = (Fin s1, Fin sy, Fin sxy, Fin s2)"
    by (simp add: forEach_sums_Fin n_def[symmetric] s1_def s2_def)
  define slope where
    "slope = jdiv (jsub (jmul (Fin (real n)) (Fin sxy)) (jmul (Fin s1) (Fin sy)))
                  (jsub (jmul (Fin (real n)) (Fin s2)) (jmul (Fin s1) (Fin s1)))"
  define intercept where "intercept = jdiv (jsub (Fin sy) (jmul slope (Fin s1))) (Fin (real n))"
  have short: "\<not> length data < 5" using len by simp
  have unfolded: "calculateProjection data =
      jmul (jdiv (jsub (jadd (jmul slope (jadd (Fin (real n)) (Fin 7))) intercept) (Fin c)) (Fin c))
           (Fin 100)"
    unfolding calculateProjection_def Let_def ps_def[symmetric]
    by (simp only: short if_False n_def[symmetric] sums prod.case slope_def intercept_def c_def)
  have d: "0 < real n * s2 - s1 * s1"
    unfolding s1_def s2_def using n5 by (intro denominator_positive) simp
  have "real n * sxy - s1 * sy = b * (real n * s2 - s1 * s1)"
    by (simp add: sxy_def sy_def algebra_simps)
  with d have slope: "slope = Fin b"
    by (simp add: slope_def)
  have intercept: "intercept = Fin a'"
    using n5 by (simp add: intercept_def slope sy_def)
  have c0: "c \<noteq> 0" using cur by (simp add: c_def)
  have "b * (real n + 7) + a' - c = 8 * b"
    by (simp add: c algebra_simps)
  with c0 have "calculateProjection data = Fin (8 * b / c * 100)"
    unfolding unfolded slope intercept by simp
  then show ?thesis by (simp only: c_def)
qed

text \<open>
  Claim C3 fails on the example week, whose rates are 0.0270 + 0.0001 * index and end at
  0.0276. Seven indices beyond the last point the line is 0.0007 above the last rate, which
  is 175/69 per cent of it; \<open>calculateProjection\<close> returns 200/69, the percentage of
  0.0008, the line read eight indices beyond the last point.
\<close>

theorem projection_reads_eight_days_ahead:
  "calculateProjection example_week = Fin (8 * (1 / 10000) / (276 / 10000) * 100) \<and>
   calculateProjection example_week \<noteq> Fin (7 * (1 / 10000) / (276 / 10000) * 100)"
  by (simp add: calculateProjection_def example_week_def on_day_def Let_def slice_last_def)

text \<open>
  Claim C7, as the code has it. On a slice of fewer than five points
  \<open>calculateProjection\<close> returns the number 0; it has no failure to report.
\<close>

theorem short_history_projects_zero:
  "length data < 5 \<Longrightarrow> calculateProjection data = Fin 0"
  by (simp add: calculateProjection_def)

theorem short_history_projects_zero_witness:
  "calculateProjection (take 3 example_week) = Fin 0"
proof -
  have "length (take 3 example_week) < 5" by simp
  then show ?thesis by (rule short_history_projects_zero)
qed

text \<open>
  Claim C7 as it is stated fails: on the first four points of the example week the
  projection is a returned value, the number 0, and not an error.
\<close>

theorem four_points_project_zero:
  "calculateProjection
     [on_day 0 (270 / 10000), on_day 1 (271 / 10000), on_day 2 (272 / 10000),
      on_day 3 (273 / 10000)] = Fin 0"
  by (simp add: calculateProjection_def)

subsection \<open>The recommendation\<close>

lemma week_volatility: "calculateVolatility example_week = Fin (200 / 273)"
proof -
  have "sqrt (1 / 25000000) = 1 / 5000"
    by (rule real_sqrt_unique) (simp_all add: power2_eq_square)
  then show ?thesis
    by (simp add: calculateVolatility_def example_week_def on_day_def Let_def)
qed

text \<open>
  Claim C5. On every pair of numbers the investment logic gives the headline and the risk
  level of the first row of the decision table whose condition holds, and NEUTRAL with a
  medium risk when none does; and on a history of at least seven points
  \<open>updateInvestmentRecommendation\<close> sets the card to that outcome for the trend of the
  last seven points and the volatility of the whole history. (The outcome is a function of
  the two numbers, so equal inputs give equal outputs.)
\<close>

theorem recommendation_first_match:
  "(headline (investment_logic (Fin t) (Fin v)), risk (investment_logic (Fin t) (Fin v))) =
     first_match decision_table (NEUTRAL, Medium) (t, v) \<and>
   (7 \<le> length data \<and> calculateTrend (slice_last 7 data) = Fin t \<and>
    calculateVolatility data = Fin v \<longrightarrow>
      map_option (\<lambda>r. (headline r, risk r)) (updateInvestmentRecommendation data) =
        Some (first_match decision_table (NEUTRAL, Medium) (t, v)))"
  by (simp add: investment_logic_def decision_table_def jgt_def
      updateInvestmentRecommendation_def Let_def)

text \<open>
  The example week: a trend of 20/9 per cent with a volatility of 200/273 per cent is a
  strong buy at low risk.
\<close>

theorem recommendation_first_match_witness:
  "map_option (\<lambda>r. (headline r, risk r)) (updateInvestmentRecommendation example_week) =
     Some (STRONG_BUY, Low)"
proof -
  have 1: "7 \<le> length example_week" by (simp add: example_week_def)
  have 2: "calculateTrend (slice_last 7 example_week) = Fin (20 / 9)"
    by (simp add: calculateTrend_def slice_last_def example_week_def on_day_def Let_def)
  from recommendation_first_match[of "20 / 9" "200 / 273" example_week] 1 2 week_volatility
  show ?thesis
    by (simp add: decision_table_def)
qed

end
